theory Spec2Isabelle
  imports Complex_Main "HOL-Library.AList" "HOL-Library.More_List"
begin

section \<open>Common Python notions\<close>

text \<open>
  The exceptions the modelled methods can raise. A failed \<^verbatim>\<open>assert\<close> is
  \<open>AssertionError\<close>; \<open>ValueError\<close> carries its message.
\<close>

datatype error =
    AssertionError
  | ValueError string
  | IndexError
  | KeyError string
  | ImportError
  | AttributeError
  | TypeError

text \<open>
  A method of an object mutates the object and either returns or raises. Both outcomes
  keep the state the object is left in, so that a mutation made before a raise stays
  visible.
\<close>

datatype 's outcome = Returned 's | Raised error 's

fun state_of :: "'s outcome \<Rightarrow> 's" where
  "state_of (Returned s) = s"
| "state_of (Raised e s) = s"

fun raised :: "'s outcome \<Rightarrow> error option" where
  "raised (Returned s) = None"
| "raised (Raised e s) = Some e"

text \<open>
  A colour as the callers give it: a name (\<^verbatim>\<open>'gray'\<close>), an RGB triple
  (\<^verbatim>\<open>(.1, .1, .1)\<close>) or concrete RGBA components.
\<close>

datatype color = ColorName string | ColorRGB real real real | ColorRGBA real real real real

type_synonym rgba = "real \<times> real \<times> real \<times> real"

section \<open>CbarBase: the colorbar state\<close>

text \<open>
  The attributes of \<^verbatim>\<open>CbarBase\<close>. \<^verbatim>\<open>set_data\<close> has \<^verbatim>\<open>None\<close> as the default of
  \<^verbatim>\<open>cmap\<close>, \<^verbatim>\<open>clim\<close>, \<^verbatim>\<open>vmin\<close>, \<^verbatim>\<open>vmax\<close>, \<^verbatim>\<open>under\<close> and \<^verbatim>\<open>over\<close>, so these six
  fields are optional values; \<^verbatim>\<open>_minmax\<close> starts as a copy of \<^verbatim>\<open>clim\<close>.
\<close>

record cbar =
  cmap :: "string option"
  clim :: "(real \<times> real) option"
  vmin :: "real option"
  vmax :: "real option"
  under :: "color option"
  over :: "color option"
  cblabel :: string
  cbtxtsz :: real
  cbtxtsh :: real
  txtcolor :: "color option"
  txtsz :: real
  txtsh :: real
  limtxt :: bool
  config :: "string option"
  cbname :: string
  bgcolor :: "color option"
  border :: bool
  bw :: real
  ndigits :: int
  width :: real
  minmax :: "(real \<times> real) option"

text \<open>
  \<^verbatim>\<open>data.min()\<close> and \<^verbatim>\<open>data.max()\<close> of a numpy array: the reduction of an empty
  array raises \<^verbatim>\<open>ValueError\<close>.
\<close>

fun array_min :: "real list \<Rightarrow> error + real" where
  "array_min [] = Inl (ValueError ''zero-size array to reduction operation minimum which has no identity'')"
| "array_min (x # xs) = Inr (fold min xs x)"

fun array_max :: "real list \<Rightarrow> error + real" where
  "array_max [] = Inl (ValueError ''zero-size array to reduction operation maximum which has no identity'')"
| "array_max (x # xs) = Inr (fold max xs x)"

text \<open>
  \<^verbatim>\<open>
  def set_data(self, data, cmap=None, clim=None, vmin=None, vmax=None,
               under=None, over=None):
      self._cmap, self._clim = cmap, clim
      self._vmin, self._vmax = vmin, vmax
      self._under, self._over = under, over
      self._minmax = (data.min(), data.max())
  \<close>
  An omitted optional argument is the argument \<open>None\<close>. The six assignments come
  first, so they are made even when the reduction of an empty array raises.
\<close>

definition set_data ::
  "cbar \<Rightarrow> real list \<Rightarrow> string option \<Rightarrow> (real \<times> real) option \<Rightarrow> real option \<Rightarrow>
   real option \<Rightarrow> color option \<Rightarrow> color option \<Rightarrow> cbar outcome" where
  "set_data self data cmap' clim' vmin' vmax' under' over' =
     (let s1 = self\<lparr>cmap := cmap', clim := clim', vmin := vmin', vmax := vmax',
                     under := under', over := over'\<rparr>
      in case array_min data of
           Inl e \<Rightarrow> Raised e s1
         | Inr lo \<Rightarrow>
             (case array_max data of
                Inl e \<Rightarrow> Raised e s1
              | Inr hi \<Rightarrow> Returned (s1\<lparr>minmax := Some (lo, hi)\<rparr>)))"

text \<open>
  \<^verbatim>\<open>
  def autoscale(self):
      self._clim = self._minmax
  \<close>
\<close>

definition autoscale :: "cbar \<Rightarrow> cbar" where
  "autoscale self = self\<lparr>clim := minmax self\<rparr>"

text \<open>
  \<^verbatim>\<open>to_kwargs\<close> returns a dictionary with the six fixed keys \<^verbatim>\<open>cmap\<close>,
  \<^verbatim>\<open>clim\<close>, \<^verbatim>\<open>vmin\<close>, \<^verbatim>\<open>under\<close>, \<^verbatim>\<open>vmax\<close>, \<^verbatim>\<open>over\<close>: a record.
\<close>

record kwargs =
  kw_cmap :: "string option"
  kw_clim :: "(real \<times> real) option"
  kw_vmin :: "real option"
  kw_under :: "color option"
  kw_vmax :: "real option"
  kw_over :: "color option"

definition to_kwargs :: "cbar \<Rightarrow> kwargs" where
  "to_kwargs self =
     \<lparr>kw_cmap = cmap self, kw_clim = clim self, kw_vmin = vmin self,
      kw_under = under self, kw_vmax = vmax self, kw_over = over self\<rparr>"

text \<open>
  The state \<^verbatim>\<open>CbarBase()\<close> builds from the defaults of \<^verbatim>\<open>__init__\<close>.
\<close>

definition cbar_init :: cbar where
  "cbar_init =
     \<lparr>cmap = Some ''viridis'', clim = Some (0, 1), vmin = None, vmax = None,
      under = Some (ColorName ''gray''), over = Some (ColorName ''red''),
      cblabel = [], cbtxtsz = 26, cbtxtsh = 23 / 10,
      txtcolor = Some (ColorName ''white''), txtsz = 20, txtsh = 12 / 10,
      limtxt = True, config = None, cbname = ''Colorbar'',
      bgcolor = Some (ColorRGB (1 / 10) (1 / 10) (1 / 10)), border = True, bw = 2,
      ndigits = 2, width = 14 / 100, minmax = Some (0, 1)\<rparr>"

subsection \<open>The serializable snapshot and the colour mapper\<close>

text \<open>
  What resolving a colour needs from outside: the table of named colours and the
  colour an unset (\<open>None\<close>) entry stands for.
\<close>

record palette =
  named_color :: "string \<Rightarrow> rgba"
  unset_color :: rgba

text \<open>
  Modelled from the spec: \<^verbatim>\<open>color2tuple\<close> (module \<^verbatim>\<open>utils.color\<close>) is missing from
  the sources at hand. The spec has the snapshot hold colours "resolved to concrete RGBA
  tuples": a name resolves through the table of named colours, an RGB triple gets full
  opacity, and concrete RGBA components resolve to themselves.
\<close>

fun color2tuple :: "palette \<Rightarrow> color option \<Rightarrow> rgba" where
  "color2tuple P None = unset_color P"
| "color2tuple P (Some (ColorName n)) = named_color P n"
| "color2tuple P (Some (ColorRGB r g b)) = (r, g, b, 1)"
| "color2tuple P (Some (ColorRGBA r g b a)) = (r, g, b, a)"

text \<open>
  \<^verbatim>\<open>to_dict\<close> returns a dictionary with fixed keys: a record. The four colours
  \<^verbatim>\<open>under\<close>, \<^verbatim>\<open>over\<close>, \<^verbatim>\<open>txtcolor\<close> and \<^verbatim>\<open>bgcolor\<close> go through
  \<^verbatim>\<open>color2tuple\<close>; every other entry is the attribute itself.
\<close>

record cbar_dict =
  d_cmap :: "string option"
  d_clim :: "(real \<times> real) option"
  d_vmin :: "real option"
  d_under :: rgba
  d_vmax :: "real option"
  d_over :: rgba
  d_cblabel :: string
  d_cbtxtsz :: real
  d_cbtxtsh :: real
  d_txtcolor :: rgba
  d_txtsz :: real
  d_txtsh :: real
  d_border :: bool
  d_bw :: real
  d_name :: string
  d_limtxt :: bool
  d_bgcolor :: rgba
  d_ndigits :: int
  d_width :: real

definition to_dict :: "palette \<Rightarrow> cbar \<Rightarrow> cbar_dict" where
  "to_dict P self =
     \<lparr>d_cmap = cmap self, d_clim = clim self, d_vmin = vmin self,
      d_under = color2tuple P (under self), d_vmax = vmax self,
      d_over = color2tuple P (over self),
      d_cblabel = cblabel self, d_cbtxtsz = cbtxtsz self, d_cbtxtsh = cbtxtsh self,
      d_txtcolor = color2tuple P (txtcolor self), d_txtsz = txtsz self,
      d_txtsh = txtsh self,
      d_border = border self, d_bw = bw self, d_name = cbname self,
      d_limtxt = limtxt self, d_bgcolor = color2tuple P (bgcolor self),
      d_ndigits = ndigits self, d_width = width self\<rparr>"

text \<open>
  The mapper configuration rebuilt from a snapshot: the six mapping entries of the
  snapshot, its two colours as the concrete RGBA components they are.
\<close>

fun rgba_color :: "rgba \<Rightarrow> color" where
  "rgba_color (r, g, b, a) = ColorRGBA r g b a"

definition kwargs_from_dict :: "cbar_dict \<Rightarrow> kwargs" where
  "kwargs_from_dict d =
     \<lparr>kw_cmap = d_cmap d, kw_clim = d_clim d, kw_vmin = d_vmin d,
      kw_under = Some (rgba_color (d_under d)), kw_vmax = d_vmax d,
      kw_over = Some (rgba_color (d_over d))\<rparr>"

text \<open>
  Modelled from the spec: \<^verbatim>\<open>array2colormap\<close> (the ColorMapper, module
  \<^verbatim>\<open>utils.color\<close>) is missing from the sources at hand. By section 4.2 of the spec it
  is a pure function of the values and the six configuration entries, giving one RGBA
  colour per value: a value below \<^verbatim>\<open>vmin\<close> gets the \<^verbatim>\<open>under\<close> colour, a value
  above \<^verbatim>\<open>vmax\<close> the \<^verbatim>\<open>over\<close> colour, and any other value maps through the colormap
  within \<^verbatim>\<open>clim\<close>. The colormap lookup itself (normalisation within \<^verbatim>\<open>clim\<close>, clamping)
  is the parameter \<open>through_cmap\<close>.
\<close>

definition map_value ::
  "palette \<Rightarrow> (string option \<Rightarrow> (real \<times> real) option \<Rightarrow> real \<Rightarrow> rgba) \<Rightarrow> kwargs \<Rightarrow> real \<Rightarrow> rgba" where
  "map_value P through_cmap kw x =
     (if (case kw_vmin kw of None \<Rightarrow> False | Some lo \<Rightarrow> x < lo)
        then color2tuple P (kw_under kw)
      else if (case kw_vmax kw of None \<Rightarrow> False | Some hi \<Rightarrow> hi < x)
        then color2tuple P (kw_over kw)
      else through_cmap (kw_cmap kw) (kw_clim kw) x)"

definition array2colormap_spec ::
  "palette \<Rightarrow> (string option \<Rightarrow> (real \<times> real) option \<Rightarrow> real \<Rightarrow> rgba) \<Rightarrow> real list \<Rightarrow> kwargs \<Rightarrow> rgba list" where
  "array2colormap_spec P through_cmap values kw = map (map_value P through_cmap kw) values"

section \<open>Projections: projecting sources onto a registered mesh\<close>

subsection \<open>Values, arrays and collaborators\<close>

text \<open>
  \<^verbatim>\<open>_proj_radius\<close> is checked with \<^verbatim>\<open>isinstance(..., (int, float))\<close>, so it is a
  Python value that may or may not be a number.
\<close>

datatype pyval = PyInt int | PyFloat real | PyStr string | PyNone

fun is_number :: "pyval \<Rightarrow> bool" where
  "is_number (PyInt n) = True"
| "is_number (PyFloat x) = True"
| "is_number (PyStr s) = False"
| "is_number PyNone = False"

text \<open>
  A numpy masked array, the result of a projection: the values and, per value, the
  mask (\<open>True\<close> where the entry is invalid).
\<close>

record marray =
  ma_data :: "real list"
  ma_mask :: "bool list"

definition ma_valid :: "marray \<Rightarrow> real list" where
  "ma_valid m = map fst (filter (\<lambda>(x, b). \<not> b) (zip (ma_data m) (ma_mask m)))"

text \<open>
  \<^verbatim>\<open>(mod.min(), mod.max())\<close> of a masked array: the reduction runs over the valid
  entries and is the constant \<^verbatim>\<open>masked\<close> (here \<open>None\<close>) when there is none; on an
  array of size zero numpy raises \<^verbatim>\<open>ValueError\<close>.
\<close>

definition ma_minmax :: "marray \<Rightarrow> error + (real option \<times> real option)" where
  "ma_minmax m =
     (if ma_data m = []
        then Inl (ValueError ''zero-size array to reduction operation minimum which has no identity'')
      else (case ma_valid m of
              [] \<Rightarrow> Inr (None, None)
            | x # xs \<Rightarrow> Inr (Some (fold min xs x), Some (fold max xs x))))"

text \<open>
  numpy indexing of an axis of length \<open>n\<close> by an integer: a negative index counts from
  the end, anything outside \<open>-n \<le> i < n\<close> is an \<^verbatim>\<open>IndexError\<close> (here \<open>None\<close>).
\<close>

definition norm_index :: "nat \<Rightarrow> int \<Rightarrow> nat option" where
  "norm_index n i =
     (if 0 \<le> i \<and> i < int n then Some (nat i)
      else if - int n \<le> i \<and> i < 0 then Some (nat (i + int n))
      else None)"

text \<open>\<^verbatim>\<open>mask[mask_idx] = val\<close> with an array of integer indices.\<close>

fun put_indices :: "real list \<Rightarrow> int list \<Rightarrow> real \<Rightarrow> error + real list" where
  "put_indices m [] val = Inr m"
| "put_indices m (i # idx) val =
     (case norm_index (length m) i of
        None \<Rightarrow> Inl IndexError
      | Some j \<Rightarrow> put_indices (m[j := val]) idx val)"

text \<open>
  \<^verbatim>\<open>mask[sel] = val\<close> with a boolean array: its length must be the length of the
  indexed axis.
\<close>

definition put_where :: "real list \<Rightarrow> bool list \<Rightarrow> real \<Rightarrow> error + real list" where
  "put_where m sel val =
     (if length sel \<noteq> length m then Inl IndexError
      else Inr (map (\<lambda>(x, b). if b then val else x) (zip m sel)))"

text \<open>
  The mesh of a registered object: its vertices and the buffers a projection writes.
  \<^verbatim>\<open>len(mesh)\<close> is the number of vertices.
\<close>

record 'p mesh =
  vertices :: "'p list"
  mask :: "real list"
  color :: "rgba list"
  mask_color :: rgba

record 'p proj_object =
  mesh :: "'p mesh"

text \<open>
  The sources object: \<open>src_data\<close> is what its projection methods read (positions,
  activity, masked flags), \<^verbatim>\<open>is_masked\<close> its flag and \<^verbatim>\<open>_minmax\<close> the cached range.
\<close>

record 'src sources =
  src_data :: 'src
  is_masked :: bool
  src_minmax :: "real option \<times> real option"

text \<open>
  The methods of collaborators that are not part of the sources at hand, as parameters:
  the three methods of the sources object, functions of the source data and of their
  arguments \<open>(v, radius, contribute)\<close>, and the colour mapper \<^verbatim>\<open>array2colormap\<close>.
\<close>

record ('p, 'src) collab =
  project_modulation :: "'src \<Rightarrow> 'p list \<Rightarrow> pyval \<Rightarrow> bool \<Rightarrow> marray"
  project_repartition :: "'src \<Rightarrow> 'p list \<Rightarrow> pyval \<Rightarrow> bool \<Rightarrow> marray"
  get_masked_index :: "'src \<Rightarrow> 'p list \<Rightarrow> pyval \<Rightarrow> bool \<Rightarrow> int list"
  array2colormap :: "marray \<Rightarrow> kwargs \<Rightarrow> rgba list"

subsection \<open>The state and the methods\<close>

text \<open>
  The attributes of \<^verbatim>\<open>Projections\<close> and the two attributes of the top-level object it
  reads, \<^verbatim>\<open>sources\<close> and \<^verbatim>\<open>cbobjs._objs\<close>. The dictionaries are association lists in
  insertion order (the order \<^verbatim>\<open>keys()\<close> gives); each registered id holds its own object.
\<close>

record ('p, 'src) projections =
  proj_obj :: "(string \<times> 'p proj_object) list"
  proj_radius :: pyval
  proj_on :: string
  proj_type :: string
  proj_contribute :: bool
  proj_mask_color :: rgba
  proj_data :: "marray option"
  vsh :: "nat list option"
  sources :: "'src sources"
  cbobjs :: "(string \<times> cbar) list"

text \<open>\<^verbatim>\<open>sep.join(xs)\<close>\<close>

fun join :: "string \<Rightarrow> string list \<Rightarrow> string" where
  "join sep [] = []"
| "join sep [x] = x"
| "join sep (x # y # ys) = x @ sep @ join sep (y # ys)"

text \<open>
  \<^verbatim>\<open>
  def _get_obj_vertices(self, obj):
      if obj in self._proj_obj.keys():
          ...
          return self._proj_obj[obj].mesh.get_vertices
      else:
          lst_obj = ', '.join(list(self._proj_obj.keys()))
          raise ValueError(obj + " not found. Use : " + lst_obj)
  \<close>
\<close>

definition not_found_message :: "string \<Rightarrow> string list \<Rightarrow> string" where
  "not_found_message obj keys = obj @ '' not found. Use : '' @ join '', '' keys"

definition get_obj_vertices :: "('p, 'src) projections \<Rightarrow> string \<Rightarrow> error + 'p list" where
  "get_obj_vertices self obj =
     (case map_of (proj_obj self) obj of
        Some ob \<Rightarrow> Inr (vertices (mesh ob))
      | None \<Rightarrow> Inl (ValueError (not_found_message obj (map fst (proj_obj self)))))"

text \<open>
  \<^verbatim>\<open>
  def _clean_source_projection(self):
      self._proj_data = None
  \<close>
\<close>

definition clean_source_projection :: "('p, 'src) projections \<Rightarrow> ('p, 'src) projections" where
  "clean_source_projection self = self\<lparr>proj_data := None\<rparr>"

text \<open>An assignment to an attribute of the mesh registered under an id.\<close>

definition update_mesh ::
  "string \<Rightarrow> ('p mesh \<Rightarrow> 'p mesh) \<Rightarrow> ('p, 'src) projections \<Rightarrow> ('p, 'src) projections" where
  "update_mesh k f self =
     self\<lparr>proj_obj := AList.map_entry k (\<lambda>ob. ob\<lparr>mesh := f (mesh ob)\<rparr>) (proj_obj self)\<rparr>"

text \<open>
  \<^verbatim>\<open>
  def _projection_to_color(self):
      kwargs = self.cbobjs._objs['Projection'].to_kwargs()
      color = array2colormap(self._proj_data, **kwargs)
      self._proj_obj[self._proj_on].mesh.color = color
  \<close>
  The mapper is given the projected array; without one (\<^verbatim>\<open>_proj_data\<close> is \<open>None\<close>)
  there is nothing to map and the call fails.
\<close>

definition projection_to_color ::
  "('p, 'src) collab \<Rightarrow> ('p, 'src) projections \<Rightarrow> ('p, 'src) projections outcome" where
  "projection_to_color C self =
     (case map_of (cbobjs self) ''Projection'' of
        None \<Rightarrow> Raised (KeyError ''Projection'') self
      | Some cb \<Rightarrow>
          (case proj_data self of
             None \<Rightarrow> Raised TypeError self
           | Some m \<Rightarrow>
               (case map_of (proj_obj self) (proj_on self) of
                  None \<Rightarrow> Raised (KeyError (proj_on self)) self
                | Some ob \<Rightarrow>
                    Returned (update_mesh (proj_on self)
                      (\<lambda>me. me\<lparr>color := array2colormap C m (to_kwargs cb)\<rparr>) self))))"

text \<open>
  The projected array of step "MODULATIONS": by the projection type, the activity or
  the repartition of the sources on the vertices \<open>v\<close>, with the radius and the
  contribute flag.
\<close>

definition projected ::
  "('p, 'src) collab \<Rightarrow> string \<Rightarrow> 'src \<Rightarrow> 'p list \<Rightarrow> pyval \<Rightarrow> bool \<Rightarrow> marray" where
  "projected C ptype src v r c =
     (if ptype = ''activity'' then project_modulation C src v r c
      else project_repartition C src v r c)"

text \<open>
  Step "MASKED", first half:
  \<^verbatim>\<open>
  mask = np.zeros((len(mesh)), dtype=np.float32)
  if self.sources.is_masked:
      mask_idx = self.sources.get_masked_index(v, self._proj_radius, c)
      mask[mask_idx] = 2.
  \<close>
\<close>

definition mask_masked_sources ::
  "('p, 'src) collab \<Rightarrow> bool \<Rightarrow> 'src \<Rightarrow> 'p list \<Rightarrow> pyval \<Rightarrow> bool \<Rightarrow> nat \<Rightarrow> error + real list" where
  "mask_masked_sources C masked src v r c n =
     (if masked then put_indices (replicate n 0) (get_masked_index C src v r c) 2
      else Inr (replicate n 0))"

text \<open>
  Step "MASKED", second half:
  \<^verbatim>\<open>
  if mod.mask.sum():
      mask[~mod.mask] = 1.
  \<close>
\<close>

definition mask_from_projection :: "marray \<Rightarrow> real list \<Rightarrow> error + real list" where
  "mask_from_projection m msk =
     (if length (filter (\<lambda>b. b) (ma_mask m)) \<noteq> 0
        then put_where msk (map Not (ma_mask m)) 1
      else Inr msk)"

text \<open>
  \<^verbatim>\<open>
  def _run_source_projection(self):
      assert isinstance(self._proj_radius, (int, float))
      assert self._proj_type in ['activity', 'repartition']
      self._clean_source_projection()
      v = self._get_obj_vertices(self._proj_on)
      self._vsh = v.shape
      r, c = self._proj_radius, self._proj_contribute
      if self._proj_type == 'activity':
          mod = self.sources.project_modulation(v, r, c)
      elif self._proj_type == 'repartition':
          mod = self.sources.project_repartition(v, r, c)
      self._proj_data = mod
      self.sources._minmax = (mod.min(), mod.max())
      mesh = self._proj_obj[self._proj_on].mesh
      mask = np.zeros((len(mesh)), dtype=np.float32)
      if self.sources.is_masked:
          mask_idx = self.sources.get_masked_index(v, self._proj_radius, c)
          mask[mask_idx] = 2.
          mesh.mask_color = self._proj_mask_color
      if mod.mask.sum():
          mask[~mod.mask] = 1.
      self._proj_obj[self._proj_on].mesh.mask = mask
      self._projection_to_color()
  \<close>
  \<open>proj_types\<close> is the list \<^verbatim>\<open>['activity', 'repartition']\<close> of the second assertion.
  Every raise returns the state with the assignments made so far. \<^verbatim>\<open>mesh\<close> is the
  mesh the vertices \<open>v\<close> were read from, so \<^verbatim>\<open>len(mesh)\<close> is the length of \<open>v\<close>.
\<close>

definition proj_types :: "string list" where
  "proj_types = [''activity'', ''repartition'']"

definition run_source_projection ::
  "('p, 'src) collab \<Rightarrow> ('p, 'src) projections \<Rightarrow> ('p, 'src) projections outcome" where
  "run_source_projection C self =
     (if \<not> is_number (proj_radius self) then Raised AssertionError self
      else if proj_type self \<notin> set proj_types then Raised AssertionError self
      else
        let s1 = clean_source_projection self in
        case get_obj_vertices s1 (proj_on s1) of
          Inl e \<Rightarrow> Raised e s1
        | Inr v \<Rightarrow>
            let s2 = s1\<lparr>vsh := Some [length v, 3]\<rparr>;
                m = projected C (proj_type s2) (src_data (sources s2)) v
                      (proj_radius s2) (proj_contribute s2);
                s3 = s2\<lparr>proj_data := Some m\<rparr>
            in case ma_minmax m of
                 Inl e \<Rightarrow> Raised e s3
               | Inr mm \<Rightarrow>
                   let s4 = s3\<lparr>sources := (sources s3)\<lparr>src_minmax := mm\<rparr>\<rparr> in
                   case mask_masked_sources C (is_masked (sources s4)) (src_data (sources s4)) v
                          (proj_radius s4) (proj_contribute s4) (length v) of
                     Inl e \<Rightarrow> Raised e s4
                   | Inr msk \<Rightarrow>
                       let s5 = (if is_masked (sources s4)
                                   then update_mesh (proj_on s4)
                                          (\<lambda>me. me\<lparr>mask_color := proj_mask_color s4\<rparr>) s4
                                 else s4)
                       in case mask_from_projection m msk of
                            Inl e \<Rightarrow> Raised e s5
                          | Inr msk' \<Rightarrow>
                              projection_to_color C
                                (update_mesh (proj_on s5) (\<lambda>me. me\<lparr>mask := msk'\<rparr>) s5))"

text \<open>The mask and the colour buffer of the mesh registered under an id.\<close>

definition mesh_mask :: "('p, 'src) projections \<Rightarrow> string \<Rightarrow> real list option" where
  "mesh_mask self k = map_option (\<lambda>ob. mask (mesh ob)) (map_of (proj_obj self) k)"

definition mesh_color :: "('p, 'src) projections \<Rightarrow> string \<Rightarrow> rgba list option" where
  "mesh_color self k = map_option (\<lambda>ob. color (mesh ob)) (map_of (proj_obj self) k)"

text \<open>
  Vertex \<open>j\<close> of \<open>n\<close> is one of those the index array \<open>idx\<close> of the masked sources
  addresses.
\<close>

definition reached_by_masked :: "nat \<Rightarrow> int list \<Rightarrow> nat \<Rightarrow> bool" where
  "reached_by_masked n idx j = (\<exists>i\<in>set idx. norm_index n i = Some j)"

subsection \<open>A concrete projection setting\<close>

text \<open>
  The scenario of the spec: four vertices on a line, one source at distance 2 from the
  first vertex only, projection type \<^verbatim>\<open>repartition\<close>. The collaborators are
  stand-ins that do what the spec says of them: the repartition counts the sources
  within the radius of each vertex, and an entry is invalid (mask \<open>True\<close>) where no
  source contributes; the indices of the vertices that masked sources reach are given.
\<close>

fun radius_value :: "pyval \<Rightarrow> real" where
  "radius_value (PyInt n) = real_of_int n"
| "radius_value (PyFloat x) = x"
| "radius_value (PyStr s) = 0"
| "radius_value PyNone = 0"

fun dist2 :: "real \<times> real \<times> real \<Rightarrow> real \<times> real \<times> real \<Rightarrow> real" where
  "dist2 (x, y, z) (a, b, c) = (x - a) * (x - a) + (y - b) * (y - b) + (z - c) * (z - c)"

definition example_repartition ::
  "(real \<times> real \<times> real) list \<Rightarrow> (real \<times> real \<times> real) list \<Rightarrow> pyval \<Rightarrow> bool \<Rightarrow> marray" where
  "example_repartition src v r c =
     (let counts = map (\<lambda>p. length (filter (\<lambda>q. dist2 p q \<le> radius_value r * radius_value r) src)) v
      in \<lparr>ma_data = map real counts, ma_mask = map (\<lambda>n. n = 0) counts\<rparr>)"

definition example_palette :: palette where
  "example_palette = \<lparr>named_color = (\<lambda>n. (1 / 2, 1 / 2, 1 / 2, 1)), unset_color = (1, 1, 1, 1)\<rparr>"

definition example_collab ::
  "int list \<Rightarrow> (real \<times> real \<times> real, (real \<times> real \<times> real) list) collab" where
  "example_collab masked_idx =
     \<lparr>project_modulation = example_repartition,
      project_repartition = example_repartition,
      get_masked_index = (\<lambda>src v r c. masked_idx),
      array2colormap = (\<lambda>m kw. array2colormap_spec example_palette (\<lambda>cm cl x. (x, x, x, 1)) (ma_data m) kw)\<rparr>"

definition example_projections ::
  "pyval \<Rightarrow> string \<Rightarrow> bool \<Rightarrow> (real \<times> real \<times> real, (real \<times> real \<times> real) list) projections" where
  "example_projections r target masked =
     \<lparr>proj_obj = [(''brain'',
                   \<lparr>mesh = \<lparr>vertices = [(0, 0, 0), (10, 0, 0), (20, 0, 0), (30, 0, 0)],
                            mask = [], color = [], mask_color = (0, 0, 0, 0)\<rparr>\<rparr>),
                 (''roi'',
                   \<lparr>mesh = \<lparr>vertices = [(0, 0, 5)],
                            mask = [], color = [], mask_color = (0, 0, 0, 0)\<rparr>\<rparr>)],
      proj_radius = r, proj_on = target, proj_type = ''repartition'',
      proj_contribute = False, proj_mask_color = (1 / 2, 1 / 2, 1 / 2, 1),
      proj_data = None, vsh = None,
      sources = \<lparr>src_data = [(0, 2, 0)], is_masked = masked, src_minmax = (None, None)\<rparr>,
      cbobjs = [(''Projection'', cbar_init)]\<rparr>"

section \<open>RoiObj: the labelled volume\<close>

subsection \<open>numpy arrays and pandas tables\<close>

text \<open>
  A numpy array: its shape and its elements in row-major order. The number of dimensions
  is the length of the shape.
\<close>

record 'a ndarray =
  shape :: "nat list"
  elems :: "'a list"

definition ndim :: "'a ndarray \<Rightarrow> nat" where
  "ndim a = length (shape a)"

text \<open>\<^verbatim>\<open>np.eye(4)\<close>\<close>

definition eye4 :: "real ndarray" where
  "eye4 = \<lparr>shape = [4, 4], elems = [1, 0, 0, 0,  0, 1, 0, 0,  0, 0, 1, 0,  0, 0, 0, 1]\<rparr>"

text \<open>
  \<^verbatim>\<open>vol[i, j, k]\<close> on a three-dimensional array: each index is normalised along its
  axis (negative indices count from the end) and an index out of range raises
  \<^verbatim>\<open>IndexError\<close>.
\<close>

definition getitem3 :: "'a ndarray \<Rightarrow> int \<times> int \<times> int \<Rightarrow> error + 'a" where
  "getitem3 a sub =
     (case (shape a, sub) of
        ([d0, d1, d2], (i, j, k)) \<Rightarrow>
          (case (norm_index d0 i, norm_index d1 j, norm_index d2 k) of
             (Some i', Some j', Some k') \<Rightarrow>
               (if (i' * d1 + j') * d2 + k' < length (elems a)
                  then Inr (elems a ! ((i' * d1 + j') * d2 + k'))
                else Inl IndexError)
           | _ \<Rightarrow> Inl IndexError)
      | _ \<Rightarrow> Inl IndexError)"

text \<open>
  The cells of a pandas table: integers, strings, floats and the missing value
  (\<^verbatim>\<open>NaN\<close> or \<^verbatim>\<open>None\<close>).
\<close>

datatype cell = CInt int | CStr string | CFloat real | CNaN

text \<open>
  A pandas \<^verbatim>\<open>DataFrame\<close>: the column labels (which may repeat), the row labels and the
  rows, each row holding one cell per column. A \<^verbatim>\<open>Series\<close> taken from a row pairs the
  column labels with the cells.
\<close>

record dataframe =
  df_columns :: "string list"
  df_index :: "nat list"
  df_rows :: "cell list list"

type_synonym series = "(string \<times> cell) list"

text \<open>\<^verbatim>\<open>pd.DataFrame({}, columns=cols)\<close>\<close>

definition df_empty :: "string list \<Rightarrow> dataframe" where
  "df_empty cols = \<lparr>df_columns = cols, df_index = [], df_rows = []\<rparr>"

text \<open>
  \<^verbatim>\<open>pd.DataFrame(d, columns=cols)\<close> for a dictionary \<open>d\<close> of \<open>n\<close>-element columns and
  \<open>cols\<close> its keys: row \<open>i\<close> holds the \<open>i\<close>-th cell of each column.
\<close>

definition df_from_dict :: "(string \<times> cell list) list \<Rightarrow> nat \<Rightarrow> dataframe" where
  "df_from_dict d n =
     \<lparr>df_columns = map fst d, df_index = [0..<n],
      df_rows = map (\<lambda>i. map (\<lambda>(c, col). nth_default CNaN col i) d) [0..<n]\<rparr>"

text \<open>
  \<^verbatim>\<open>df.loc[k] = location\<close>: the new row has, per column, the cell the series holds
  under that label, the missing value where it holds none, and only missing values for
  \<^verbatim>\<open>None\<close>. It replaces the row labelled \<open>k\<close>, or is appended under the label \<open>k\<close> when
  there is no such row.
\<close>

definition row_of_location :: "string list \<Rightarrow> series option \<Rightarrow> cell list" where
  "row_of_location cols loc =
     (case loc of
        None \<Rightarrow> map (\<lambda>c. CNaN) cols
      | Some ser \<Rightarrow> map (\<lambda>c. case map_of ser c of None \<Rightarrow> CNaN | Some x \<Rightarrow> x) cols)"

definition df_set_row :: "dataframe \<Rightarrow> nat \<Rightarrow> series option \<Rightarrow> dataframe" where
  "df_set_row df k loc =
     (let r = row_of_location (df_columns df) loc in
      if k \<in> set (df_index df)
        then df\<lparr>df_rows := map (\<lambda>(l, old). if l = k then r else old) (zip (df_index df) (df_rows df))\<rparr>
      else df\<lparr>df_index := df_index df @ [k], df_rows := df_rows df @ [r]\<rparr>)"

text \<open>
  \<^verbatim>\<open>df[name] = values\<close> with a list: on a table without rows the values become the
  rows (the other columns missing); otherwise the list must have one value per row, else
  pandas raises \<^verbatim>\<open>ValueError\<close>. An existing column of that label is overwritten, a new
  label is appended as the last column.
\<close>

definition put_column :: "string list \<Rightarrow> string \<Rightarrow> cell list \<Rightarrow> cell \<Rightarrow> cell list" where
  "put_column cols name r x =
     (if name \<in> set cols then map (\<lambda>(c, old). if c = name then x else old) (zip cols r)
      else r @ [x])"

definition df_set_column :: "dataframe \<Rightarrow> string \<Rightarrow> cell list \<Rightarrow> error + dataframe" where
  "df_set_column df name vals =
     (let base = (if df_index df = [] \<and> vals \<noteq> []
                    then df\<lparr>df_index := [0..<length vals],
                            df_rows := replicate (length vals) (map (\<lambda>c. CNaN) (df_columns df))\<rparr>
                  else df)
      in if length vals \<noteq> length (df_index base)
           then Inl (ValueError ''Length of values does not match length of index'')
         else Inr (base\<lparr>df_columns := (if name \<in> set (df_columns base) then df_columns base
                                         else df_columns base @ [name]),
                        df_rows := map (\<lambda>(r, x). put_column (df_columns base) name r x)
                                     (zip (df_rows base) vals)\<rparr>))"

text \<open>
  \<^verbatim>\<open>df[names]\<close> with a list of labels: for each label in turn, every column that
  carries it; a label no column carries raises \<^verbatim>\<open>KeyError\<close>.
\<close>

definition positions :: "string list \<Rightarrow> string \<Rightarrow> nat list" where
  "positions cols name = filter (\<lambda>i. cols ! i = name) [0..<length cols]"

definition df_select :: "dataframe \<Rightarrow> string list \<Rightarrow> error + dataframe" where
  "df_select df names =
     (case filter (\<lambda>n. n \<notin> set (df_columns df)) names of
        missing # _ \<Rightarrow> Inl (KeyError missing)
      | [] \<Rightarrow>
          (let pos = concat (map (positions (df_columns df)) names) in
           Inr (df\<lparr>df_columns := map (\<lambda>i. df_columns df ! i) pos,
                   df_rows := map (\<lambda>r. map (\<lambda>i. nth_default CNaN r i) pos) (df_rows df)\<rparr>)))"

text \<open>
  \<^verbatim>\<open>df.fillna(v, inplace=True)\<close> and \<^verbatim>\<open>df.replace(k, v, inplace=True)\<close>. A number
  pattern matches the cells of that value, integer or float.
\<close>

definition df_fillna :: "dataframe \<Rightarrow> cell \<Rightarrow> dataframe" where
  "df_fillna df v = df\<lparr>df_rows := map (map (\<lambda>x. if x = CNaN then v else x)) (df_rows df)\<rparr>"

fun cell_matches :: "cell \<Rightarrow> cell \<Rightarrow> bool" where
  "cell_matches (CInt k) (CInt x) = (k = x)"
| "cell_matches (CInt k) (CFloat x) = (real_of_int k = x)"
| "cell_matches (CFloat k) (CInt x) = (k = real_of_int x)"
| "cell_matches (CFloat k) (CFloat x) = (k = x)"
| "cell_matches (CStr k) (CStr x) = (k = x)"
| "cell_matches k x = False"

definition df_replace :: "dataframe \<Rightarrow> cell \<Rightarrow> cell \<Rightarrow> dataframe" where
  "df_replace df k v = df\<lparr>df_rows := map (map (\<lambda>x. if cell_matches k x then v else x)) (df_rows df)\<rparr>"

text \<open>\<^verbatim>\<open>df[name]\<close>: the cells of the first column of that label.\<close>

definition df_column :: "dataframe \<Rightarrow> string \<Rightarrow> error + cell list" where
  "df_column df name =
     (case positions (df_columns df) name of
        [] \<Rightarrow> Inl (KeyError name)
      | i # _ \<Rightarrow> Inr (map (\<lambda>r. nth_default CNaN r i) (df_rows df)))"

text \<open>\<^verbatim>\<open>df.iloc[i]\<close>: row \<open>i\<close> as a series.\<close>

definition df_iloc :: "dataframe \<Rightarrow> nat \<Rightarrow> error + series" where
  "df_iloc df i =
     (if i < length (df_rows df) then Inr (zip (df_columns df) (df_rows df ! i))
      else Inl IndexError)"

subsection \<open>The object and its loading\<close>

text \<open>
  The attributes of \<^verbatim>\<open>RoiObj\<close> the methods below read and write: \<^verbatim>\<open>_offset\<close>,
  \<^verbatim>\<open>vol\<close>, \<^verbatim>\<open>_n_roi\<close>, \<^verbatim>\<open>hdr\<close>, \<^verbatim>\<open>system\<close>, \<^verbatim>\<open>ref\<close> and \<^verbatim>\<open>analysis\<close>.
\<close>

record roi =
  offset :: int
  vol :: "int ndarray"
  n_roi :: nat
  hdr :: "real ndarray"
  system :: string
  ref :: dataframe
  analysis :: dataframe

text \<open>
  The array of labels: a plain array, or a structured array with named fields, given by
  the field names and its records.
\<close>

datatype labels = Plain "cell list" | Struct "string list" "cell list list"

fun len_labels :: "labels \<Rightarrow> nat" where
  "len_labels (Plain xs) = length xs"
| "len_labels (Struct names recs) = length recs"

text \<open>
  \<^verbatim>\<open>
  def _struct_array_to_dict(arr):
      try:
          if arr.dtype.names is None:
              return {'label': arr}
          else:
              return {k: arr[k] for k in arr.dtype.names}
      except:
          return {'label': arr}
  \<close>
\<close>

fun struct_array_to_dict :: "labels \<Rightarrow> (string \<times> cell list) list" where
  "struct_array_to_dict (Plain xs) = [(''label'', xs)]"
| "struct_array_to_dict (Struct names recs) =
     map (\<lambda>j. (names ! j, map (\<lambda>r. nth_default CNaN r j) recs)) [0..<length names]"

text \<open>
  What the methods take from outside the sources at hand: whether pandas is installed,
  the loader of the predefined atlases, the conversion of a point from MNI to Talairach
  space, the least-squares solution of the affine transformation rounded to a voxel
  index (\<^verbatim>\<open>np.round(np.linalg.lstsq(self.hdr, x)[0][0:-1]).astype(int)\<close>), and the
  surface extraction \<^verbatim>\<open>isosurface(smooth_3d(vol, smooth), level=.5)\<close>, which gives the
  vertices and the faces (triples of vertex indices) of a mesh.
\<close>

record roi_env =
  is_pandas_installed :: bool
  load_predefined_roi :: "string \<Rightarrow> int ndarray \<times> labels \<times> int list \<times> real ndarray \<times> string"
  mni2tal :: "real \<times> real \<times> real \<Rightarrow> real \<times> real \<times> real"
  to_voxel :: "real ndarray \<Rightarrow> real \<times> real \<times> real \<Rightarrow> int \<times> int \<times> int"
  isosurface_smooth ::
    "int ndarray \<Rightarrow> nat \<Rightarrow> (real \<times> real \<times> real) list \<times> (nat \<times> nat \<times> nat) list"

text \<open>
  \<^verbatim>\<open>
  def change_roi_object(self, name, vol=None, label=None, index=None,
                        hdr=None, system='mni'):
      if not is_pandas_installed():
          raise ImportError(...)
      if name in ['brodmann', 'talairach', 'aal']:
          vol, label, index, hdr, system = load_predefined_roi(name)
      self._offset = -1 if name == 'talairach' else 0
      assert vol.ndim == 3
      assert len(index) == len(label)
      index = np.asarray(index).astype(int)
      label = np.asarray(label)
      self.vol = vol
      self._n_roi = len(index)
      self.hdr = np.eye(4) if hdr is None else hdr
      assert self.hdr.shape == (4, 4)
      assert system in ['mni', 'tal']
      self.system = system
      label_dict = self._struct_array_to_dict(label)
      label_dict['index'] = index
      cols = list(label_dict.keys())
      self.ref = pd.DataFrame(label_dict, columns=cols)
      self.analysis = pd.DataFrame({}, columns=cols)
  \<close>
  The arguments with default \<^verbatim>\<open>None\<close> are optional values; \<^verbatim>\<open>None.ndim\<close> is an
  \<^verbatim>\<open>AttributeError\<close> and \<^verbatim>\<open>len(None)\<close> a \<^verbatim>\<open>TypeError\<close>.
\<close>

definition predefined :: "string list" where
  "predefined = [''brodmann'', ''talairach'', ''aal'']"

definition systems :: "string list" where
  "systems = [''mni'', ''tal'']"

definition roi_inputs ::
  "roi_env \<Rightarrow> string \<Rightarrow> int ndarray option \<Rightarrow> labels option \<Rightarrow> int list option \<Rightarrow>
   real ndarray option \<Rightarrow> string \<Rightarrow>
   int ndarray option \<times> labels option \<times> int list option \<times> real ndarray option \<times> string" where
  "roi_inputs E name vol' label' index' hdr' system' =
     (if name \<in> set predefined
        then (case load_predefined_roi E name of
                (v, l, i, h, s) \<Rightarrow> (Some v, Some l, Some i, Some h, s))
      else (vol', label', index', hdr', system'))"

definition change_roi_object ::
  "roi_env \<Rightarrow> roi \<Rightarrow> string \<Rightarrow> int ndarray option \<Rightarrow> labels option \<Rightarrow> int list option \<Rightarrow>
   real ndarray option \<Rightarrow> string \<Rightarrow> roi outcome" where
  "change_roi_object E self name vol' label' index' hdr' system' =
     (if \<not> is_pandas_installed E then Raised ImportError self
      else
        case roi_inputs E name vol' label' index' hdr' system' of
          (volo, labelo, indexo, hdro, sys) \<Rightarrow>
            let s1 = self\<lparr>offset := (if name = ''talairach'' then - 1 else 0)\<rparr> in
            (case volo of
               None \<Rightarrow> Raised AttributeError s1
             | Some v \<Rightarrow>
                 if ndim v \<noteq> 3 then Raised AssertionError s1
                 else
                   (case (indexo, labelo) of
                      (Some idx, Some lab) \<Rightarrow>
                        if length idx \<noteq> len_labels lab then Raised AssertionError s1
                        else
                          let s2 = s1\<lparr>vol := v, n_roi := length idx\<rparr>;
                              s3 = s2\<lparr>hdr := (case hdro of None \<Rightarrow> eye4 | Some h \<Rightarrow> h)\<rparr>
                          in if shape (hdr s3) \<noteq> [4, 4] then Raised AssertionError s3
                             else if sys \<notin> set systems then Raised AssertionError s3
                             else
                               let s4 = s3\<lparr>system := sys\<rparr>;
                                   label_dict = AList.update ''index'' (map CInt idx)
                                                  (struct_array_to_dict lab);
                                   cols = map fst label_dict
                               in Returned (s4\<lparr>ref := df_from_dict label_dict (length idx),
                                                analysis := df_empty cols\<rparr>)
                    | _ \<Rightarrow> Raised TypeError s1)))"

subsection \<open>Localizing sources\<close>

text \<open>
  \<^verbatim>\<open>
  def __ge__(self, idx):
      assert len(idx) == 3
      sh = self.vol.shape
      return (sh[0] >= idx[0]) and (sh[1] >= idx[1]) and (sh[2] >= idx[2])
  \<close>
  The index is a triple, so the assertion holds; a shape with fewer than three entries
  has no \<^verbatim>\<open>sh[2]\<close>.
\<close>

definition roi_ge :: "roi \<Rightarrow> int \<times> int \<times> int \<Rightarrow> error + bool" where
  "roi_ge self idx =
     (case (shape (vol self), idx) of
        (d0 # d1 # d2 # _, (i, j, k)) \<Rightarrow> Inr (i \<le> int d0 \<and> j \<le> int d1 \<and> k \<le> int d2)
      | _ \<Rightarrow> Inl IndexError)"

text \<open>
  \<^verbatim>\<open>
  def _find_roi_label(self, vol_idx):
      ref_index = np.where(self.ref['index'] == vol_idx)[0]
      return self[int(ref_index[0])] if ref_index.size else None
  \<close>
  where \<^verbatim>\<open>self[i]\<close> is \<^verbatim>\<open>self.ref.iloc[i]\<close> for an integer.
\<close>

definition find_roi_label :: "roi \<Rightarrow> int \<Rightarrow> error + series option" where
  "find_roi_label self vol_idx =
     (case df_column (ref self) ''index'' of
        Inl e \<Rightarrow> Inl e
      | Inr col \<Rightarrow>
          (case filter (\<lambda>i. cell_matches (CInt vol_idx) (col ! i)) [0..<length col] of
             [] \<Rightarrow> Inr None
           | i # _ \<Rightarrow> (case df_iloc (ref self) i of Inl e \<Rightarrow> Inl e | Inr ser \<Rightarrow> Inr (Some ser))))"

text \<open>\<^verbatim>\<open>str(k)\<close> of a natural number, for the default names \<^verbatim>\<open>'s' + str(k)\<close>.\<close>

fun digit :: "nat \<Rightarrow> char" where
  "digit d = ''0123456789'' ! (d mod 10)"

function str_nat :: "nat \<Rightarrow> string" where
  "str_nat n = (if n < 10 then [digit n] else str_nat (n div 10) @ [digit n])"
  by pat_completeness auto
termination
  by (relation "measure id") auto

text \<open>
  The location of one source, the body of the loop:
  \<^verbatim>\<open>
  pos = np.linalg.lstsq(self.hdr, xyz[:, k])[0][0:-1]
  sub = np.round(pos).astype(int)
  if self >= sub:  # use __ge__ of RoiObj
      idx_vol = self.vol[sub[0], sub[1], sub[2]] + self._offset
      location = self._find_roi_label(idx_vol)
  else:
      location = None
  \<close>
\<close>

definition locate :: "roi_env \<Rightarrow> roi \<Rightarrow> real \<times> real \<times> real \<Rightarrow> error + series option" where
  "locate E self p =
     (let sub = to_voxel E (hdr self) p in
      case roi_ge self sub of
        Inl e \<Rightarrow> Inl e
      | Inr inside \<Rightarrow>
          if inside
            then (case getitem3 (vol self) sub of
                    Inl e \<Rightarrow> Inl e
                  | Inr x \<Rightarrow> find_roi_label self (x + offset self))
          else Inr None)"

text \<open>
  The loop \<^verbatim>\<open>for k in range(n_sources)\<close>, from \<open>k\<close> on, with
  \<^verbatim>\<open>self.analysis.loc[k] = location\<close> at the end of its body. The rows are written
  into the table the object holds.
\<close>

fun localize_loop :: "roi_env \<Rightarrow> roi \<Rightarrow> nat \<Rightarrow> (real \<times> real \<times> real) list \<Rightarrow> roi outcome" where
  "localize_loop E self k [] = Returned self"
| "localize_loop E self k (p # ps) =
     (case locate E self p of
        Inl e \<Rightarrow> Raised e self
      | Inr location \<Rightarrow>
          localize_loop E (self\<lparr>analysis := df_set_row (analysis self) k location\<rparr>) (Suc k) ps)"

text \<open>
  \<^verbatim>\<open>
  def localize_sources(self, xyz, source_name=None, replace_bad=True,
                       bad_patterns=[-1, 'undefined', 'None'],
                       replace_with='Not found'):
      assert (xyz.ndim == 2) and (xyz.shape[1] == 3)
      n_sources = xyz.shape[0]
      if self.system == 'tal':
          xyz = mni2tal(xyz)
      if source_name is None:
          source_name = ['s' + str(k) for k in range(n_sources)]
      assert len(source_name) == n_sources
      xyz = np.c_[xyz, np.ones((n_sources,), dtype=xyz.dtype)].T
      for k in range(n_sources):
          ...
          self.analysis.loc[k] = location
      new_col = ['Text'] + self.analysis.columns.tolist() + ['X', 'Y', 'Z']
      self.analysis['Text'] = source_name
      self.analysis['X'] = xyz[0]
      self.analysis['Y'] = xyz[1]
      self.analysis['Z'] = xyz[2]
      self.analysis = self.analysis[new_col]
      if replace_bad:
          self.analysis.fillna(replace_with, inplace=True)
          for k in bad_patterns:
              self.analysis.replace(k, replace_with, inplace=True)
      return self.analysis
  \<close>
  The points are a list of triples, so the first assertion holds. The table returned is
  the attribute \<^verbatim>\<open>analysis\<close> of the state returned.
\<close>

definition bad_patterns_default :: "cell list" where
  "bad_patterns_default = [CInt (- 1), CStr ''undefined'', CStr ''None'']"

definition replace_with_default :: cell where
  "replace_with_default = CStr ''Not found''"

definition set_analysis_column :: "roi \<Rightarrow> string \<Rightarrow> cell list \<Rightarrow> roi outcome" where
  "set_analysis_column self name vals =
     (case df_set_column (analysis self) name vals of
        Inl e \<Rightarrow> Raised e self
      | Inr a \<Rightarrow> Returned (self\<lparr>analysis := a\<rparr>))"

definition replace_bad_values :: "roi \<Rightarrow> bool \<Rightarrow> cell list \<Rightarrow> cell \<Rightarrow> roi" where
  "replace_bad_values self replace_bad bad_patterns replace_with =
     (if replace_bad
        then self\<lparr>analysis := fold (\<lambda>k a. df_replace a k replace_with) bad_patterns
                                 (df_fillna (analysis self) replace_with)\<rparr>
      else self)"

definition localize_sources ::
  "roi_env \<Rightarrow> roi \<Rightarrow> (real \<times> real \<times> real) list \<Rightarrow> string list option \<Rightarrow> bool \<Rightarrow> cell list \<Rightarrow> cell \<Rightarrow>
   roi outcome" where
  "localize_sources E self xyz source_name replace_bad bad_patterns replace_with =
     (let n_sources = length xyz;
          xyz1 = (if system self = ''tal'' then map (mni2tal E) xyz else xyz);
          names = (case source_name of
                     None \<Rightarrow> map (\<lambda>k. ''s'' @ str_nat k) [0..<n_sources]
                   | Some ns \<Rightarrow> ns)
      in if length names \<noteq> n_sources then Raised AssertionError self
         else
           case localize_loop E self 0 xyz1 of
             Raised e s1 \<Rightarrow> Raised e s1
           | Returned s1 \<Rightarrow>
               let new_col = ''Text'' # df_columns (analysis s1) @ [''X'', ''Y'', ''Z''] in
               (case set_analysis_column s1 ''Text'' (map CStr names) of
                  Raised e s2 \<Rightarrow> Raised e s2
                | Returned s2 \<Rightarrow>
                    (case set_analysis_column s2 ''X'' (map (\<lambda>(x, y, z). CFloat x) xyz1) of
                       Raised e s3 \<Rightarrow> Raised e s3
                     | Returned s3 \<Rightarrow>
                         (case set_analysis_column s3 ''Y'' (map (\<lambda>(x, y, z). CFloat y) xyz1) of
                            Raised e s4 \<Rightarrow> Raised e s4
                          | Returned s4 \<Rightarrow>
                              (case set_analysis_column s4 ''Z'' (map (\<lambda>(x, y, z). CFloat z) xyz1) of
                                 Raised e s5 \<Rightarrow> Raised e s5
                               | Returned s5 \<Rightarrow>
                                   (case df_select (analysis s5) new_col of
                                      Inl e \<Rightarrow> Raised e s5
                                    | Inr a \<Rightarrow>
                                        Returned (replace_bad_values (s5\<lparr>analysis := a\<rparr>)
                                                    replace_bad bad_patterns replace_with)))))))"

subsection \<open>Extracting the surface of regions\<close>




text \<open>
  \<^verbatim>\<open>faces.max()\<close> of a non-empty array of faces, and \<^verbatim>\<open>f + n\<close> on every index.
\<close>

definition face_indices :: "(nat \<times> nat \<times> nat) list \<Rightarrow> nat list" where
  "face_indices fs = concat (map (\<lambda>(a, b, c). [a, b, c]) fs)"


fun shift_face :: "nat \<Rightarrow> nat \<times> nat \<times> nat \<Rightarrow> nat \<times> nat \<times> nat" where
  "shift_face n (a, b, c) = (a + n, b + n, c + n)"





subsection \<open>The concatenation of levels as the spec describes it\<close>





subsection \<open>A concrete labelled volume\<close>

text \<open>
  A volume of shape (2, 2, 2) filled with label 1 except for voxel (1, 1, 1), which has
  label 2, with the index table [(1, "A"), (2, "B")] and the identity as affine
  transformation, so that the voxel of a point is the point rounded. The surface of a
  volume is a stand-in: one triangle when a voxel is set, nothing otherwise.
\<close>

definition example_vol :: "int ndarray" where
  "example_vol = \<lparr>shape = [2, 2, 2], elems = [1, 1, 1, 1, 1, 1, 1, 2]\<rparr>"

definition example_roi_env :: roi_env where
  "example_roi_env =
     \<lparr>is_pandas_installed = True,
      load_predefined_roi = (\<lambda>n. (example_vol, Plain [CStr ''A'', CStr ''B''], [1, 2], eye4, ''mni'')),
      mni2tal = (\<lambda>p. p),
      to_voxel = (\<lambda>h (x, y, z). (round x, round y, round z)),
      isosurface_smooth = (\<lambda>v smooth.
         if (\<exists>x\<in>set (elems v). x \<noteq> 0)
           then ([(0, 0, 0), (1, 0, 0), (0, 1, 0)], [(0, 1, 2)])
         else ([], []))\<rparr>"

definition blank_roi :: roi where
  "blank_roi =
     \<lparr>offset = 0, vol = \<lparr>shape = [0, 0, 0], elems = []\<rparr>, n_roi = 0, hdr = eye4,
      system = ''mni'', ref = df_empty [], analysis = df_empty []\<rparr>"

definition example_roi :: roi where
  "example_roi =
     state_of (change_roi_object example_roi_env blank_roi ''custom'' (Some example_vol)
                 (Some (Plain [CStr ''A'', CStr ''B''])) (Some [1, 2]) None ''mni'')"


section \<open>Properties of the colorbar state\<close>

lemma fold_min_Min: "fold min xs (x::real) = Min (set (x # xs))"
  by (rule Min.set_eq_fold [symmetric])

lemma fold_max_Max: "fold max xs (x::real) = Max (set (x # xs))"
  by (rule Max.set_eq_fold [symmetric])

lemma array_min_nonempty: "data \<noteq> [] \<Longrightarrow> array_min data = Inr (Min (set data))"
proof (cases data)
  case Nil
  then show "data \<noteq> [] \<Longrightarrow> ?thesis" by simp
next
  case (Cons x xs)
  then show ?thesis by (simp only: array_min.simps fold_min_Min)
qed

lemma array_max_nonempty: "data \<noteq> [] \<Longrightarrow> array_max data = Inr (Max (set data))"
proof (cases data)
  case Nil
  then show "data \<noteq> [] \<Longrightarrow> ?thesis" by simp
next
  case (Cons x xs)
  then show ?thesis by (simp only: array_max.simps fold_max_Max)
qed

text \<open>
  C8. For a data array (a non-empty one: the reduction of an empty array raises),
  \<^verbatim>\<open>set_data\<close> returns and the cached range is the minimum and the maximum of the
  data; \<^verbatim>\<open>autoscale\<close> then makes exactly that range the active \<^verbatim>\<open>clim\<close>.
\<close>

theorem set_data_caches_range_autoscale:
  assumes "data \<noteq> []"
  shows "\<exists>s'. set_data self data cm cl vmi vma un ov = Returned s'
           \<and> minmax s' = Some (Min (set data), Max (set data))
           \<and> clim (autoscale s') = Some (Min (set data), Max (set data))"
  using assms
  by (simp add: set_data_def autoscale_def array_min_nonempty array_max_nonempty)

theorem set_data_caches_range_autoscale_witness:
  "[3, 1, 2 :: real] \<noteq> []
   \<and> (\<exists>s'. set_data cbar_init [3, 1, 2] None None None None None None = Returned s'
           \<and> minmax s' = Some (1, 3) \<and> clim (autoscale s') = Some (1, 3))"
  using set_data_caches_range_autoscale [of "[3, 1, 2]" cbar_init None None None None None None]
  by simp

lemma color2tuple_rgba_color: "color2tuple P (Some (rgba_color t)) = t"
  by (cases t) simp

text \<open>
  C9. Round trip through the export: the mapper configuration rebuilt from the
  serializable snapshot \<^verbatim>\<open>to_dict\<close> (its colours concrete RGBA components) gives, on
  any input data, the same colours as the configuration \<^verbatim>\<open>to_kwargs\<close> exports.
\<close>

theorem export_round_trip_same_colors:
  "array2colormap_spec P through_cmap values (kwargs_from_dict (to_dict P self))
     = array2colormap_spec P through_cmap values (to_kwargs self)"
  by (simp add: array2colormap_spec_def map_value_def kwargs_from_dict_def to_dict_def
        to_kwargs_def color2tuple_rgba_color)

text \<open>
  C10. \<^verbatim>\<open>set_data\<close> replaces all six configuration fields by its arguments, whether it
  returns or raises, and leaves every other attribute but the cached range as it was;
  so with the six optional arguments omitted, all six fields are \<open>None\<close> afterwards.
\<close>

theorem set_data_overwrites_six_fields:
  "state_of (set_data self data cm cl vmi vma un ov)
     = self\<lparr>cmap := cm, clim := cl, vmin := vmi, vmax := vma, under := un, over := ov,
            minmax := minmax (state_of (set_data self data cm cl vmi vma un ov))\<rparr>
   \<and> cmap (state_of (set_data self data None None None None None None)) = None
   \<and> clim (state_of (set_data self data None None None None None None)) = None
   \<and> vmin (state_of (set_data self data None None None None None None)) = None
   \<and> vmax (state_of (set_data self data None None None None None None)) = None
   \<and> under (state_of (set_data self data None None None None None None)) = None
   \<and> over (state_of (set_data self data None None None None None None)) = None"
  by (simp add: set_data_def Let_def split: sum.splits)

section \<open>Properties of the projection\<close>

lemma map_of_map_entry2: "map_of (AList.map_entry k f al) k' = (if k' = k then map_option f (map_of al k) else map_of al k')"
  by (induction al) auto

lemma keys_map_entry: "map fst (AList.map_entry k f al) = map fst al"
  by (induction al) auto

lemma map_entry_twice: "AList.map_entry k f (AList.map_entry k g al) = AList.map_entry k (f \<circ> g) al"
  by (induction al) auto

lemma norm_index_less: "norm_index n i = Some j \<Longrightarrow> j < n"
  by (auto simp: norm_index_def split: if_splits)

lemma put_indices_result:
  "put_indices m idx val = Inr m' \<Longrightarrow>
     length m' = length m \<and> (\<forall>j<length m. m' ! j = (if reached_by_masked (length m) idx j then val else m ! j))"
proof (induction idx arbitrary: m)
  case Nil
  then show ?case by (simp add: reached_by_masked_def)
next
  case (Cons i idx)
  from Cons.prems obtain k where k: "norm_index (length m) i = Some k"
    and rest: "put_indices (m[k := val]) idx val = Inr m'"
    by (auto split: option.splits)
  from Cons.IH [OF rest] have len: "length m' = length m"
    and at: "\<And>j. j < length m \<Longrightarrow> m' ! j = (if reached_by_masked (length m) idx j then val else (m[k := val]) ! j)"
    by simp_all
  have "k < length m" using k by (rule norm_index_less)
  show ?case
  proof (intro conjI allI impI)
    show "length m' = length m" by (rule len)
  next
    fix j assume j: "j < length m"
    show "m' ! j = (if reached_by_masked (length m) (i # idx) j then val else m ! j)"
      using at [OF j] k j \<open>k < length m\<close>
      by (auto simp: reached_by_masked_def nth_list_update)
  qed
qed

lemma mask_from_projection_result:
  "mask_from_projection m msk = Inr msk' \<Longrightarrow>
     length msk' = length msk \<and>
     (\<forall>j<length msk. msk' ! j = (if (\<exists>b\<in>set (ma_mask m). b) \<and> \<not> ma_mask m ! j then 1 else msk ! j))"
  by (auto simp: mask_from_projection_def put_where_def filter_empty_conv split: if_splits)

lemma run_returned:
  assumes "run_source_projection C s = Returned s'"
  shows "\<exists>ob msk msk'. map_of (proj_obj s) (proj_on s) = Some ob
     \<and> mask_masked_sources C (is_masked (sources s)) (src_data (sources s)) (vertices (mesh ob))
          (proj_radius s) (proj_contribute s) (length (vertices (mesh ob))) = Inr msk
     \<and> mask_from_projection
          (projected C (proj_type s) (src_data (sources s)) (vertices (mesh ob)) (proj_radius s) (proj_contribute s)) msk = Inr msk'
     \<and> mesh_mask s' (proj_on s) = Some msk'"
proof (cases "is_number (proj_radius s) \<and> proj_type s \<in> set proj_types")
  case False
  then show ?thesis using assms by (auto simp: run_source_projection_def split: if_splits)
next
  case ok: True
  show ?thesis
  proof (cases "map_of (proj_obj s) (proj_on s)")
    case None
    then show ?thesis using ok assms
      by (simp add: run_source_projection_def clean_source_projection_def get_obj_vertices_def)
  next
    case (Some ob)
    define v where "v = vertices (mesh ob)"
    define m where "m = projected C (proj_type s) (src_data (sources s)) v (proj_radius s) (proj_contribute s)"
    obtain im where im: "is_masked (sources s) = im" by simp
    note base = ok Some v_def [symmetric] m_def [symmetric] im
    note defs = run_source_projection_def clean_source_projection_def get_obj_vertices_def Let_def
    show ?thesis
    proof (cases "ma_minmax m")
      case (Inl e)
      then show ?thesis using base assms
        by (simp add: defs)
    next
      case mm: (Inr mm)
      show ?thesis
      proof (cases "mask_masked_sources C im (src_data (sources s)) v (proj_radius s) (proj_contribute s) (length v)")
        case (Inl e)
        then show ?thesis using base mm assms
          by (simp add: defs)
      next
        case msk: (Inr msk)
        show ?thesis
        proof (cases "mask_from_projection m msk")
          case (Inl e)
          then show ?thesis using base mm msk assms
            by (cases im) (simp_all add: defs)
        next
          case msk': (Inr msk')
          show ?thesis
          proof (cases "map_of (cbobjs s) ''Projection''")
            case None
            then show ?thesis using base mm msk msk' assms
              by (cases im) (simp_all add: defs projection_to_color_def update_mesh_def)
          next
            case (Some cb)
            then show ?thesis using base mm msk msk' assms
              by (cases im) (auto simp add: defs projection_to_color_def update_mesh_def map_of_map_entry2 mesh_mask_def)
          qed
        qed
      qed
    qed
  qed
qed

lemma run_idem:
  "run_source_projection C (state_of (run_source_projection C s)) = run_source_projection C s"
proof (cases "is_number (proj_radius s) \<and> proj_type s \<in> set proj_types")
  case False
  then show ?thesis by (auto simp: run_source_projection_def)
next
  case ok: True
  show ?thesis
  proof (cases "map_of (proj_obj s) (proj_on s)")
    case None
    then show ?thesis using ok
      by (simp add: run_source_projection_def clean_source_projection_def get_obj_vertices_def)
  next
    case (Some ob)
    define v where "v = vertices (mesh ob)"
    define m where "m = projected C (proj_type s) (src_data (sources s)) v (proj_radius s) (proj_contribute s)"
    obtain im where im: "is_masked (sources s) = im" by simp
    note base = ok Some v_def [symmetric] m_def [symmetric] im
    note defs = run_source_projection_def clean_source_projection_def get_obj_vertices_def Let_def
    note upd = update_mesh_def map_of_map_entry2 keys_map_entry map_entry_twice comp_def
    show ?thesis
    proof (cases "ma_minmax m")
      case (Inl e)
      then show ?thesis using base
        by (simp add: defs)
    next
      case mm: (Inr mm)
      show ?thesis
      proof (cases "mask_masked_sources C im (src_data (sources s)) v (proj_radius s) (proj_contribute s) (length v)")
        case (Inl e)
        then show ?thesis using base mm
          by (simp add: defs)
      next
        case msk: (Inr msk)
        show ?thesis
        proof (cases "mask_from_projection m msk")
          case (Inl e)
          then show ?thesis using base mm msk
            by (cases im) (simp_all add: defs upd)
        next
          case msk': (Inr msk')
          show ?thesis
          proof (cases "map_of (cbobjs s) ''Projection''")
            case None
            then show ?thesis using base mm msk msk'
              by (cases im) (simp_all add: defs projection_to_color_def upd)
          next
            case (Some cb)
            then show ?thesis using base mm msk msk'
              by (cases im) (simp_all add: defs projection_to_color_def upd)
          qed
        qed
      qed
    qed
  qed
qed

text \<open>
  C1 (as the code has it). After a projection that returns, the mask of the target
  mesh has one entry per vertex: 1 where the vertex has a contribution (its entry of the
  projected array is valid) provided at least one entry is invalid; otherwise 2 where a
  masked source reaches the vertex; otherwise 0. The 1 is written after the 2, so it
  takes priority.
\<close>

theorem run_projection_mask_values:
  assumes "run_source_projection C s = Returned s'"
  shows "\<exists>ob msk. map_of (proj_obj s) (proj_on s) = Some ob
           \<and> mesh_mask s' (proj_on s) = Some msk
           \<and> length msk = length (vertices (mesh ob))
           \<and> (\<forall>j<length (vertices (mesh ob)). msk ! j =
                (if (\<exists>b\<in>set (ma_mask (projected C (proj_type s) (src_data (sources s))
                                 (vertices (mesh ob)) (proj_radius s) (proj_contribute s))). b)
                    \<and> \<not> ma_mask (projected C (proj_type s) (src_data (sources s))
                                 (vertices (mesh ob)) (proj_radius s) (proj_contribute s)) ! j
                 then 1
                 else if is_masked (sources s)
                         \<and> reached_by_masked (length (vertices (mesh ob)))
                             (get_masked_index C (src_data (sources s)) (vertices (mesh ob))
                                (proj_radius s) (proj_contribute s)) j
                 then 2 else 0))"
proof -
  from run_returned [OF assms] obtain ob msk msk' where
    ob: "map_of (proj_obj s) (proj_on s) = Some ob"
    and msk: "mask_masked_sources C (is_masked (sources s)) (src_data (sources s)) (vertices (mesh ob))
          (proj_radius s) (proj_contribute s) (length (vertices (mesh ob))) = Inr msk"
    and msk': "mask_from_projection
          (projected C (proj_type s) (src_data (sources s)) (vertices (mesh ob)) (proj_radius s)
             (proj_contribute s)) msk = Inr msk'"
    and res: "mesh_mask s' (proj_on s) = Some msk'"
    by blast
  let ?n = "length (vertices (mesh ob))"
  have len: "length msk = ?n"
    and at: "\<And>j. j < ?n \<Longrightarrow> msk ! j =
       (if is_masked (sources s)
           \<and> reached_by_masked ?n (get_masked_index C (src_data (sources s)) (vertices (mesh ob))
                (proj_radius s) (proj_contribute s)) j then 2 else 0)"
    using msk put_indices_result [of "replicate ?n 0"
        "get_masked_index C (src_data (sources s)) (vertices (mesh ob)) (proj_radius s) (proj_contribute s)"
        2 msk]
    by (auto simp: mask_masked_sources_def split: if_splits)
  let ?m = "projected C (proj_type s) (src_data (sources s)) (vertices (mesh ob)) (proj_radius s)
             (proj_contribute s)"
  have len': "length msk' = ?n"
    using mask_from_projection_result [OF msk'] len by simp
  have at': "\<And>j. j < ?n \<Longrightarrow> msk' ! j =
       (if (\<exists>b\<in>set (ma_mask ?m). b) \<and> \<not> ma_mask ?m ! j then 1 else msk ! j)"
    using mask_from_projection_result [OF msk'] len by simp
  have "\<forall>j<?n. msk' ! j =
        (if (\<exists>b\<in>set (ma_mask ?m). b) \<and> \<not> ma_mask ?m ! j then 1
         else if is_masked (sources s)
                 \<and> reached_by_masked ?n (get_masked_index C (src_data (sources s)) (vertices (mesh ob))
                      (proj_radius s) (proj_contribute s)) j
         then 2 else 0)"
  proof (intro allI impI)
    fix j assume j: "j < ?n"
    show "msk' ! j =
        (if (\<exists>b\<in>set (ma_mask ?m). b) \<and> \<not> ma_mask ?m ! j then 1
         else if is_masked (sources s)
                 \<and> reached_by_masked ?n (get_masked_index C (src_data (sources s)) (vertices (mesh ob))
                      (proj_radius s) (proj_contribute s)) j
         then 2 else 0)"
      unfolding at' [OF j] at [OF j] ..
  qed
  with len' have "length msk' = ?n \<and> (\<forall>j<?n. msk' ! j =
        (if (\<exists>b\<in>set (ma_mask ?m). b) \<and> \<not> ma_mask ?m ! j then 1
         else if is_masked (sources s)
                 \<and> reached_by_masked ?n (get_masked_index C (src_data (sources s)) (vertices (mesh ob))
                      (proj_radius s) (proj_contribute s)) j
         then 2 else 0))"
    by (rule conjI)
  with ob res show ?thesis by blast
qed

lemmas projection_example_defs =
  run_source_projection_def clean_source_projection_def get_obj_vertices_def
  projected_def mask_masked_sources_def mask_from_projection_def put_where_def norm_index_def
  projection_to_color_def update_mesh_def mesh_mask_def mesh_color_def ma_minmax_def ma_valid_def
  example_collab_def example_projections_def example_repartition_def proj_types_def
  not_found_message_def

theorem run_projection_mask_values_witness:
  "run_source_projection (example_collab [0, 3]) (example_projections (PyInt 3) ''brain'' True)
     = Returned (state_of (run_source_projection (example_collab [0, 3])
                             (example_projections (PyInt 3) ''brain'' True)))
   \<and> mesh_mask (state_of (run_source_projection (example_collab [0, 3])
                             (example_projections (PyInt 3) ''brain'' True))) ''brain''
       = Some [1, 0, 0, 2]"
proof -
  have h: "run_source_projection (example_collab [0, 3]) (example_projections (PyInt 3) ''brain'' True)
     = Returned (state_of (run_source_projection (example_collab [0, 3])
                             (example_projections (PyInt 3) ''brain'' True)))"
    by (simp add: projection_example_defs Let_def)
  show ?thesis
    using run_projection_mask_values [OF h]
    by (simp add: projection_example_defs Let_def)
qed

text \<open>
  The claim C1 as stated fails: in the scenario of the spec with radius 1 no vertex
  receives a contribution (every entry of the projected array is invalid), the
  projection returns, and every vertex ends with mask 0, not 1.
\<close>

theorem all_uncontributed_mask_counterexample:
  "raised (run_source_projection (example_collab []) (example_projections (PyInt 1) ''brain'' False)) = None
   \<and> map_option ma_mask (proj_data (state_of (run_source_projection (example_collab [])
         (example_projections (PyInt 1) ''brain'' False)))) = Some [True, True, True, True]
   \<and> mesh_mask (state_of (run_source_projection (example_collab [])
         (example_projections (PyInt 1) ''brain'' False))) ''brain'' = Some [0, 0, 0, 0]"
  by (simp add: projection_example_defs Let_def)

text \<open>
  C4. A projection is idempotent: run again on the state the first run left (same
  registered objects, sources, colorbar configuration, radius, contribute flag and type),
  it has the same outcome and leaves the same state; in particular the mask and the
  colour buffer of every registered mesh are the same after the second run as after the
  first.
\<close>

theorem run_projection_idempotent:
  "run_source_projection C (state_of (run_source_projection C s)) = run_source_projection C s
   \<and> mesh_mask (state_of (run_source_projection C (state_of (run_source_projection C s)))) k
       = mesh_mask (state_of (run_source_projection C s)) k
   \<and> mesh_color (state_of (run_source_projection C (state_of (run_source_projection C s)))) k
       = mesh_color (state_of (run_source_projection C s)) k"
  by (simp add: run_idem)

text \<open>
  C6. With a numeric radius and a valid projection type, a projection on a target id
  that is not registered raises \<^verbatim>\<open>ValueError\<close> with the message
  \<^verbatim>\<open>"<id> not found. Use : "\<close> followed by all registered ids, and the registered
  objects (so the mask and colour buffers of every mesh) are as before; for a registered
  id the lookup returns the vertices of that object's mesh.
\<close>

theorem run_projection_unknown_target:
  assumes "is_number (proj_radius s)" and "proj_type s \<in> set proj_types"
  shows "(proj_on s \<notin> set (map fst (proj_obj s)) \<longrightarrow>
            raised (run_source_projection C s)
              = Some (ValueError (proj_on s @ '' not found. Use : '' @ join '', '' (map fst (proj_obj s))))
            \<and> proj_obj (state_of (run_source_projection C s)) = proj_obj s)
         \<and> (\<forall>ob. map_of (proj_obj s) k = Some ob \<longrightarrow> get_obj_vertices s k = Inr (vertices (mesh ob)))"
proof (intro conjI impI allI)
  assume absent: "proj_on s \<notin> set (map fst (proj_obj s))"
  then have none: "map_of (proj_obj s) (proj_on s) = None"
    by (simp add: map_of_eq_None_iff)
  with assms show "raised (run_source_projection C s)
      = Some (ValueError (proj_on s @ '' not found. Use : '' @ join '', '' (map fst (proj_obj s))))"
    by (simp add: run_source_projection_def clean_source_projection_def get_obj_vertices_def
          not_found_message_def)
  from none assms show "proj_obj (state_of (run_source_projection C s)) = proj_obj s"
    by (simp add: run_source_projection_def clean_source_projection_def get_obj_vertices_def)
next
  fix ob assume "map_of (proj_obj s) k = Some ob"
  then show "get_obj_vertices s k = Inr (vertices (mesh ob))"
    by (simp add: get_obj_vertices_def)
qed

theorem run_projection_unknown_target_witness:
  "is_number (PyInt 1) \<and> ''repartition'' \<in> set proj_types
   \<and> ''sources'' \<notin> set (map fst (proj_obj (example_projections (PyInt 1) ''sources'' False)))
   \<and> raised (run_source_projection (example_collab []) (example_projections (PyInt 1) ''sources'' False))
       = Some (ValueError ''sources not found. Use : brain, roi'')
   \<and> proj_obj (state_of (run_source_projection (example_collab [])
                            (example_projections (PyInt 1) ''sources'' False)))
       = proj_obj (example_projections (PyInt 1) ''sources'' False)
   \<and> get_obj_vertices (example_projections (PyInt 1) ''sources'' False) ''roi'' = Inr [(0, 0, 5)]"
  using run_projection_unknown_target [of "example_projections (PyInt 1) ''sources'' False"
          "example_collab []" "''roi''"]
  by (simp add: example_projections_def proj_types_def)

section \<open>Properties of the labelled volume\<close>

text \<open>
  C2 (defect). \<^verbatim>\<open>__ge__\<close> accepts a voxel index up to and including the shape and
  any negative index. In the example volume of shape (2, 2, 2) with the identity as
  transformation and the default arguments, the point (2, 0, 0), whose voxel index is at
  the dimension, makes \<^verbatim>\<open>localize_sources\<close> raise \<^verbatim>\<open>IndexError\<close>; and the point
  (-0.6, 0, 0), whose voxel index (-1, 0, 0) is negative, has its label looked up at the
  voxel counted from the end and gets the row of label "A", not the sentinel.
\<close>

theorem localize_sources_volume_edge_defect:
  "raised (localize_sources example_roi_env example_roi [(2, 0, 0)] None True
             bad_patterns_default replace_with_default) = Some IndexError
   \<and> to_voxel example_roi_env (hdr example_roi) (- 3 / 5, 0, 0) = (- 1, 0, 0)
   \<and> raised (localize_sources example_roi_env example_roi [(- 3 / 5, 0, 0)] None True
             bad_patterns_default replace_with_default) = None
   \<and> df_rows (analysis (state_of (localize_sources example_roi_env example_roi [(- 3 / 5, 0, 0)]
             None True bad_patterns_default replace_with_default)))
       = [[CStr ''s0'', CStr ''A'', CInt 1, CFloat (- 3 / 5), CFloat 0, CFloat 0]]"
  by code_simp

text \<open>
  C3 (as the code has it). With pandas installed and a volume, labels and index given
  (or loaded for a predefined name), an invalid input raises \<^verbatim>\<open>AssertionError\<close>. When
  the volume is not three-dimensional or the index and the labels differ in length, only
  the index offset has been set: volume, number of regions, affine, system, reference
  table and analysis table are as before. When the affine is not 4 by 4, the volume, the
  number of regions and the affine have already been replaced by the new ones; the
  system and the two tables are as before.
\<close>

theorem change_roi_object_failure_paths:
  assumes "is_pandas_installed E"
    and "roi_inputs E name vol' label' index' hdr' system' = (Some v, Some lab, Some idx, ho, sys)"
  shows "(ndim v \<noteq> 3 \<or> length idx \<noteq> len_labels lab \<longrightarrow>
            change_roi_object E self name vol' label' index' hdr' system'
              = Raised AssertionError (self\<lparr>offset := (if name = ''talairach'' then - 1 else 0)\<rparr>))
         \<and> (\<forall>a. ndim v = 3 \<and> length idx = len_labels lab \<and> ho = Some a \<and> shape a \<noteq> [4, 4] \<longrightarrow>
            change_roi_object E self name vol' label' index' hdr' system'
              = Raised AssertionError
                  (self\<lparr>offset := (if name = ''talairach'' then - 1 else 0),
                        vol := v, n_roi := length idx, hdr := a\<rparr>))"
  using assms by (auto simp: change_roi_object_def Let_def)

theorem change_roi_object_failure_paths_witness:
  "is_pandas_installed example_roi_env
   \<and> change_roi_object example_roi_env example_roi ''custom''
        (Some \<lparr>shape = [2, 2], elems = [1, 1, 1, 2]\<rparr>) (Some (Plain [CStr ''C''])) (Some [7]) None ''mni''
       = Raised AssertionError (example_roi\<lparr>offset := 0\<rparr>)
   \<and> change_roi_object example_roi_env example_roi ''custom''
        (Some \<lparr>shape = [1, 1, 1], elems = [7]\<rparr>) (Some (Plain [CStr ''C''])) (Some [7])
        (Some \<lparr>shape = [3, 3], elems = [1, 0, 0, 0, 1, 0, 0, 0, 1]\<rparr>) ''mni''
       = Raised AssertionError
           (example_roi\<lparr>offset := 0, vol := \<lparr>shape = [1, 1, 1], elems = [7]\<rparr>, n_roi := 1,
                        hdr := \<lparr>shape = [3, 3], elems = [1, 0, 0, 0, 1, 0, 0, 0, 1]\<rparr>\<rparr>)"
proof -
  have p: "is_pandas_installed example_roi_env"
    by (simp add: example_roi_env_def)
  have i1: "roi_inputs example_roi_env ''custom''
        (Some \<lparr>shape = [2, 2], elems = [1, 1, 1, 2]\<rparr>) (Some (Plain [CStr ''C''])) (Some [7]) None ''mni''
      = (Some \<lparr>shape = [2, 2], elems = [1, 1, 1, 2]\<rparr>, Some (Plain [CStr ''C'']), Some [7], None, ''mni'')"
    by (simp add: roi_inputs_def predefined_def)
  have i2: "roi_inputs example_roi_env ''custom''
        (Some \<lparr>shape = [1, 1, 1], elems = [7]\<rparr>) (Some (Plain [CStr ''C''])) (Some [7])
        (Some \<lparr>shape = [3, 3], elems = [1, 0, 0, 0, 1, 0, 0, 0, 1]\<rparr>) ''mni''
      = (Some \<lparr>shape = [1, 1, 1], elems = [7]\<rparr>, Some (Plain [CStr ''C'']), Some [7],
         Some \<lparr>shape = [3, 3], elems = [1, 0, 0, 0, 1, 0, 0, 0, 1]\<rparr>, ''mni'')"
    by (simp add: roi_inputs_def predefined_def)
  show ?thesis
    using p change_roi_object_failure_paths [OF p i1, of example_roi]
      change_roi_object_failure_paths [OF p i2, of example_roi]
    by (simp add: ndim_def)
qed

text \<open>
  The claim C3 as stated fails on the third path: loading a volume of shape (1, 1, 1)
  with an affine of shape (3, 3) onto the example object raises, and the object is left
  with the new volume and the new number of regions.
\<close>

theorem change_roi_object_partial_mutation_counterexample:
  "raised (change_roi_object example_roi_env example_roi ''custom''
        (Some \<lparr>shape = [1, 1, 1], elems = [7]\<rparr>) (Some (Plain [CStr ''C''])) (Some [7])
        (Some \<lparr>shape = [3, 3], elems = [1, 0, 0, 0, 1, 0, 0, 0, 1]\<rparr>) ''mni'') = Some AssertionError
   \<and> shape (vol example_roi) = [2, 2, 2]
   \<and> shape (vol (state_of (change_roi_object example_roi_env example_roi ''custom''
        (Some \<lparr>shape = [1, 1, 1], elems = [7]\<rparr>) (Some (Plain [CStr ''C''])) (Some [7])
        (Some \<lparr>shape = [3, 3], elems = [1, 0, 0, 0, 1, 0, 0, 0, 1]\<rparr>) ''mni''))) = [1, 1, 1]
   \<and> n_roi example_roi = 2
   \<and> n_roi (state_of (change_roi_object example_roi_env example_roi ''custom''
        (Some \<lparr>shape = [1, 1, 1], elems = [7]\<rparr>) (Some (Plain [CStr ''C''])) (Some [7])
        (Some \<lparr>shape = [3, 3], elems = [1, 0, 0, 0, 1, 0, 0, 0, 1]\<rparr>) ''mni'')) = 1
   \<and> shape (hdr example_roi) = [4, 4]
   \<and> shape (hdr (state_of (change_roi_object example_roi_env example_roi ''custom''
        (Some \<lparr>shape = [1, 1, 1], elems = [7]\<rparr>) (Some (Plain [CStr ''C''])) (Some [7])
        (Some \<lparr>shape = [3, 3], elems = [1, 0, 0, 0, 1, 0, 0, 0, 1]\<rparr>) ''mni''))) = [3, 3]"
  by code_simp

text \<open>
  C5 (defect). \<^verbatim>\<open>localize_sources\<close> does not recreate the table: it writes into the
  one \<^verbatim>\<open>change_roi_object\<close> created. On the example object a first call with two
  points returns two rows; a second call with one point then raises \<^verbatim>\<open>ValueError\<close>
  (one name for a table that still has two rows), and the table is left with the two
  rows.
\<close>

theorem localize_sources_second_call_defect:
  "raised (localize_sources example_roi_env example_roi [(1, 1, 1), (0, 0, 0)] None True
             bad_patterns_default replace_with_default) = None
   \<and> df_index (analysis (state_of (localize_sources example_roi_env example_roi
             [(1, 1, 1), (0, 0, 0)] None True bad_patterns_default replace_with_default))) = [0, 1]
   \<and> raised (localize_sources example_roi_env
               (state_of (localize_sources example_roi_env example_roi [(1, 1, 1), (0, 0, 0)] None True
                            bad_patterns_default replace_with_default))
               [(1, 1, 1)] None True bad_patterns_default replace_with_default)
       = Some (ValueError ''Length of values does not match length of index'')
   \<and> df_index (analysis (state_of (localize_sources example_roi_env
               (state_of (localize_sources example_roi_env example_roi [(1, 1, 1), (0, 0, 0)] None True
                            bad_patterns_default replace_with_default))
               [(1, 1, 1)] None True bad_patterns_default replace_with_default))) = [0, 1]"
  by code_simp


lemma face_indices_append [simp]: "face_indices (xs @ ys) = face_indices xs @ face_indices ys"
  by (simp add: face_indices_def)

lemma face_indices_Nil [simp]: "face_indices [] = []"
  by (simp add: face_indices_def)

lemma face_indices_empty_iff [simp]: "face_indices fs = [] \<longleftrightarrow> fs = []"
  by (cases fs) (auto simp: face_indices_def)

lemma set_face_indices_empty_iff [simp]: "set (face_indices fs) = {} \<longleftrightarrow> fs = []"
  by simp

lemma face_indices_Cons [simp]: "face_indices ((a, b, c) # fs) = a # b # c # face_indices fs"
  by (simp add: face_indices_def)


lemma shift_face_0 [simp]: "map (shift_face 0) fs = fs"
  by (induction fs) auto














end
